theory Spec2Isabelle
  imports Main
begin

section \<open>JavaScript strings and numbers, as far as the transformer reads them\<close>

text \<open>
  A string is a list of UTF-16 code units. A \<open>char\<close> is one code unit below \<open>U+0100\<close>,
  so the strings of the model are those made of such code units (ASCII and Latin-1,
  \<open>U+00A0\<close> included); a text with a code unit from \<open>U+0100\<close> on has no counterpart
  here. Lengths and prefixes count code units, as \<open>substring\<close> does.

  A number is an IEEE double. The transformer only ever makes numbers with \<open>parseInt\<close>,
  tests them for truthiness and writes them as property keys, so the numbers of the model
  are \<open>NaN\<close>, the two infinities and the doubles that are integers.
\<close>

definition is_digit :: "char \<Rightarrow> bool" where
  "is_digit c = (c \<in> set ''0123456789'')"

definition is_hex_digit :: "char \<Rightarrow> bool" where
  "is_hex_digit c = (c \<in> set ''0123456789abcdefABCDEF'')"

definition digit_val :: "char \<Rightarrow> int" where
  "digit_val c =
     (let n = of_char c in
      if 97 \<le> n then n - 87 else if 65 \<le> n then n - 55 else n - 48)"

definition digits_val :: "int \<Rightarrow> string \<Rightarrow> int" where
  "digits_val radix ds = foldl (\<lambda>a c. radix * a + digit_val c) 0 ds"

text \<open>
  The white space that \<open>trim\<close> and \<open>parseInt\<close> strip: tab, line feed, vertical tab, form
  feed, carriage return, space and the no-break space \<open>U+00A0\<close>. (The others are code
  units from \<open>U+1680\<close> on.)
\<close>

definition js_space :: "char \<Rightarrow> bool" where
  "js_space c =
     (c \<in> set [CHR '' '', CHR 0x09, CHR 0x0A, CHR 0x0B, CHR 0x0C, CHR 0x0D, CHR 0xA0])"

definition trim :: "string \<Rightarrow> string" where
  "trim s = rev (dropWhile js_space (rev (dropWhile js_space s)))"

text \<open>
  \<open>toLowerCase\<close>: the capital letters are \<open>A\<close> to \<open>Z\<close> and, in Latin-1, \<open>U+00C0\<close> to
  \<open>U+00DE\<close> without the multiplication sign \<open>U+00D7\<close>; each has its small letter 32
  places on.
\<close>

definition lower_char :: "char \<Rightarrow> char" where
  "lower_char c =
     (let n = (of_char c :: nat)
      in if (65 \<le> n \<and> n \<le> 90) \<or> (192 \<le> n \<and> n \<le> 222 \<and> n \<noteq> 215) then char_of (n + 32)
         else c)"

definition toLowerCase :: "string \<Rightarrow> string" where
  "toLowerCase s = map lower_char s"

text \<open>\<open>String(n)\<close> of a natural number that a double holds exactly: its decimal digits.\<close>

fun decimal :: "nat \<Rightarrow> string" where
  "decimal n =
     (if n < 10 then [char_of (48 + n)] else decimal (n div 10) @ [char_of (48 + n mod 10)])"

declare decimal.simps [simp del]

subsection \<open>Numbers\<close>

datatype js_number = NaN | Num int | PosInfinity | NegInfinity

text \<open>
  The double nearest to a natural number, ties going to the even significand; \<open>None\<close> is
  the overflow to infinity. Below \<open>2 ^ 53\<close> every natural number is a double.
\<close>

function bit_length :: "int \<Rightarrow> nat" where
  "bit_length n = (if n \<le> 0 then 0 else Suc (bit_length (n div 2)))"
  by pat_completeness auto
termination
  by (relation "measure nat") auto

declare bit_length.simps [simp del]

definition round_double :: "int \<Rightarrow> int option" where
  "round_double n =
     (if n < 2 ^ 53 then Some n
      else (let e = bit_length n - 53;
                q = n div 2 ^ e;
                r = n mod 2 ^ e;
                q' = (if 2 ^ e < 2 * r \<or> (2 * r = 2 ^ e \<and> odd q) then q + 1 else q)
            in if 2 ^ 1024 \<le> q' * 2 ^ e then None else Some (q' * 2 ^ e)))"

text \<open>The number with the given sign and magnitude, as a double.\<close>

definition to_number :: "bool \<Rightarrow> int \<Rightarrow> js_number" where
  "to_number negative n =
     (case round_double n of
        None \<Rightarrow> if negative then NegInfinity else PosInfinity
      | Some v \<Rightarrow> Num (if negative then - v else v))"

text \<open>
  \<open>parseInt(s)\<close> with no radix: leading white space and one sign are skipped, a
  \<open>0x\<close> prefix selects base 16, and the longest run of digits is read; no digit at all
  gives \<open>NaN\<close>, and the integer read is returned as the nearest double.
\<close>

definition parseDigits :: "string \<Rightarrow> int option" where
  "parseDigits s =
     (if take 2 s = ''0x'' \<or> take 2 s = ''0X''
      then (let ds = takeWhile is_hex_digit (drop 2 s)
            in if ds = [] then None else Some (digits_val 16 ds))
      else (let ds = takeWhile is_digit s
            in if ds = [] then None else Some (digits_val 10 ds)))"

definition parseInt :: "string \<Rightarrow> js_number" where
  "parseInt s =
     (case dropWhile js_space s of
        [] \<Rightarrow> NaN
      | c # r \<Rightarrow>
          if c = CHR ''-'' then (case parseDigits r of None \<Rightarrow> NaN | Some n \<Rightarrow> to_number True n)
          else if c = CHR ''+''
            then (case parseDigits r of None \<Rightarrow> NaN | Some n \<Rightarrow> to_number False n)
          else (case parseDigits (c # r) of None \<Rightarrow> NaN | Some n \<Rightarrow> to_number False n))"

text \<open>
  A number is truthy unless it is \<open>0\<close> or \<open>NaN\<close>. Where the code holds \<open>null\<close> in a
  variable that otherwise holds a number, the model holds \<open>NaN\<close>: the code only tests
  such a variable for truthiness, and both are falsy.
\<close>

definition truthy_num :: "js_number \<Rightarrow> bool" where
  "truthy_num v = (case v of NaN \<Rightarrow> False | Num n \<Rightarrow> n \<noteq> 0 | _ \<Rightarrow> True)"

text \<open>The decimal digits of an integer that is not negative.\<close>

function int_digits :: "int \<Rightarrow> string" where
  "int_digits n =
     (if n < 10 then [char_of (48 + n)] else int_digits (n div 10) @ [char_of (48 + n mod 10)])"
  by pat_completeness auto
termination
  by (relation "measure nat") auto

declare int_digits.simps [simp del]

text \<open>
  \<open>String(v)\<close> for a double \<open>v\<close> that is a natural number, which is also the property
  key that \<open>obj[v]\<close> reads. The digits are the shortest decimal \<open>s\<close>, with an exponent
  \<open>e\<close>, such that \<open>s * 10 ^ e\<close> is read back as \<open>v\<close>; of two such of the same length the
  nearer one, and of two equally near the even one. \<open>candidates v k\<close> are the decimals of
  \<open>k\<close> digits next to \<open>v\<close> that are read back as \<open>v\<close>.
\<close>

definition candidates :: "int \<Rightarrow> nat \<Rightarrow> (int \<times> nat) list" where
  "candidates v k =
     (let e = length (int_digits v) - k; s0 = v div 10 ^ e
      in filter (\<lambda>(s, e). round_double (s * 10 ^ e) = Some v) [(s0, e), (s0 + 1, e)])"

fun nearest :: "int \<Rightarrow> (int \<times> nat) list \<Rightarrow> int \<times> nat" where
  "nearest v [(s0, e0), (s1, e1)] =
     (let d0 = v - s0 * 10 ^ e0; d1 = s1 * 10 ^ e1 - v
      in if d0 < d1 then (s0, e0) else if d1 < d0 then (s1, e1)
         else if even s0 then (s0, e0) else (s1, e1))"
| "nearest v (c # cs) = c"
| "nearest v [] = (v, 0)"

definition shortest_digits :: "int \<Rightarrow> int \<times> nat" where
  "shortest_digits v =
     nearest v (concat (take 1 (filter (\<lambda>cs. cs \<noteq> []) (map (candidates v) [1..<18]))))"

function strip_zeros :: "int \<times> nat \<Rightarrow> int \<times> nat" where
  "strip_zeros (s, e) = (if 0 < s \<and> s mod 10 = 0 then strip_zeros (s div 10, Suc e) else (s, e))"
  by pat_completeness auto
termination
  by (relation "measure (\<lambda>(s, e). nat s)") auto

declare strip_zeros.simps [simp del]

text \<open>
  With \<open>k\<close> digits and \<open>n = e + k\<close>: up to \<open>n = 21\<close> the digits are followed by \<open>e\<close>
  zeros, beyond that the number is written with an exponent, as in \<open>1e+21\<close> and
  \<open>1.5e+22\<close>.
\<close>

definition magnitude_string :: "int \<Rightarrow> string" where
  "magnitude_string v =
     (if v < 2 ^ 53 then int_digits v
      else (case strip_zeros (shortest_digits v) of
              (s, e) \<Rightarrow>
                (let ds = int_digits s
                 in if e + length ds \<le> 21 then ds @ replicate e (CHR ''0'')
                    else (case ds of
                            [] \<Rightarrow> []
                          | [c] \<Rightarrow> [c]
                          | c # cs \<Rightarrow> c # CHR ''.'' # cs)
                         @ ''e+'' @ decimal (e + length ds - 1))))"

definition js_string_of_number :: "js_number \<Rightarrow> string" where
  "js_string_of_number v =
     (case v of
        NaN \<Rightarrow> ''NaN''
      | PosInfinity \<Rightarrow> ''Infinity''
      | NegInfinity \<Rightarrow> ''-Infinity''
      | Num i \<Rightarrow> if i < 0 then CHR ''-'' # magnitude_string (- i) else magnitude_string i)"

text \<open>\<open>x || ''\<close> for an attribute that may be absent.\<close>

definition or_empty :: "string option \<Rightarrow> string" where
  "or_empty v = (case v of None \<Rightarrow> [] | Some s \<Rightarrow> s)"

definition join :: "string \<Rightarrow> string list \<Rightarrow> string" where
  "join sep xs = (case xs of [] \<Rightarrow> [] | y # ys \<Rightarrow> foldl (\<lambda>a b. a @ sep @ b) y ys)"

subsection \<open>The three regular expressions with a capture group\<close>

text \<open>
  Each of them is a literal followed by \<open>(\d+)\<close>, so the leftmost match is found by
  trying every start position in turn, and the greedy group is the longest run of digits.
\<close>

definition starts_with :: "string \<Rightarrow> string \<Rightarrow> bool" where
  "starts_with p s = (take (length p) s = p)"

text \<open>\<open>/wp-image-(\d+)/\<close>\<close>

fun match_wp_image :: "string \<Rightarrow> string option" where
  "match_wp_image [] = None"
| "match_wp_image (c # r) =
     (let ds = takeWhile is_digit (drop 9 (c # r))
      in if starts_with ''wp-image-'' (c # r) \<and> ds \<noteq> [] then Some ds
         else match_wp_image r)"

text \<open>\<open>/\/(\d+)\//\<close>: a slash, digits, and a slash right after the last digit.\<close>

fun match_url_segment :: "string \<Rightarrow> string option" where
  "match_url_segment [] = None"
| "match_url_segment (c # r) =
     (let ds = takeWhile is_digit r
      in if c = CHR ''/'' \<and> ds \<noteq> [] \<and> starts_with ''/'' (dropWhile is_digit r) then Some ds
         else match_url_segment r)"

text \<open>\<open>/[?&]p=(\d+)/\<close>\<close>

fun match_post_param :: "string \<Rightarrow> string option" where
  "match_post_param [] = None"
| "match_post_param (c # r) =
     (let ds = takeWhile is_digit (drop 2 r)
      in if (c = CHR ''?'' \<or> c = CHR ''&'') \<and> starts_with ''p='' r \<and> ds \<noteq> [] then Some ds
         else match_post_param r)"

section \<open>The parsed HTML tree\<close>

text \<open>
  What \<open>node-html-parser\<close> hands to the transformer: text nodes (node type 3) with their
  text, comment nodes (node type 8), and elements (node type 1) with a tag name,
  attributes and child nodes.
\<close>

datatype html_node =
    TextNode string
  | CommentNode string
  | Element string "(string \<times> string) list" "html_node list"

fun childNodes :: "html_node \<Rightarrow> html_node list" where
  "childNodes (Element tg as ks) = ks"
| "childNodes _ = []"

text \<open>\<open>node.tagName?.toLowerCase()\<close>: undefined for a text or comment node.\<close>

fun lowerTag :: "html_node \<Rightarrow> string option" where
  "lowerTag (Element tg as ks) = Some (toLowerCase tg)"
| "lowerTag _ = None"

fun getAttribute :: "html_node \<Rightarrow> string \<Rightarrow> string option" where
  "getAttribute (Element tg as ks) name = map_of as name"
| "getAttribute _ name = None"

text \<open>Elements below a node, in document order, as the selector queries visit them.\<close>

fun descendants :: "html_node \<Rightarrow> html_node list"
  and descendants_list :: "html_node list \<Rightarrow> html_node list" where
  "descendants (Element tg as ks) = descendants_list ks"
| "descendants (TextNode s) = []"
| "descendants (CommentNode s) = []"
| "descendants_list [] = []"
| "descendants_list (TextNode s # ns) = descendants_list ns"
| "descendants_list (CommentNode s # ns) = descendants_list ns"
| "descendants_list (Element tg as ks # ns) =
     Element tg as ks # descendants_list ks @ descendants_list ns"

definition querySelectorAll :: "string list \<Rightarrow> html_node \<Rightarrow> html_node list" where
  "querySelectorAll tags node =
     filter (\<lambda>n. case lowerTag n of None \<Rightarrow> False | Some tg \<Rightarrow> tg \<in> set tags) (descendants node)"

definition querySelector :: "string \<Rightarrow> html_node \<Rightarrow> html_node option" where
  "querySelector tg node = (case querySelectorAll [tg] node of [] \<Rightarrow> None | n # ns \<Rightarrow> Some n)"

text \<open>\<open>:scope > ul, :scope > ol\<close>: the children that are lists.\<close>

definition is_list_element :: "html_node \<Rightarrow> bool" where
  "is_list_element n = (lowerTag n = Some ''ul'' \<or> lowerTag n = Some ''ol'')"

fun textContent :: "html_node \<Rightarrow> string"
  and textContent_list :: "html_node list \<Rightarrow> string" where
  "textContent (TextNode s) = s"
| "textContent (CommentNode s) = []"
| "textContent (Element tg as ks) = textContent_list ks"
| "textContent_list [] = []"
| "textContent_list (n # ns) = textContent n @ textContent_list ns"



section \<open>The document tree\<close>

text \<open>
  A text-run is \<open>{nodeType: 'text', value, marks, data: {}}\<close>; every other node is
  \<open>{nodeType, data, content}\<close>. The marks of a text-run are an array of \<open>{type}\<close>
  objects, kept here in the order of the array.
\<close>

datatype mark = Bold | Italic | Underline | Code | Subscript | Superscript

datatype link_type = Asset | Entry

datatype node_type =
    DOCUMENT | PARAGRAPH | HEADING nat | UL_LIST | OL_LIST | LIST_ITEM | QUOTE | HR
  | EMBEDDED_ASSET | HYPERLINK | ENTRY_HYPERLINK

text \<open>
  The payload of a node: \<open>{}\<close>, \<open>{uri}\<close>, or
  \<open>{target: {sys: {type: 'Link', linkType, id}}}\<close>.
\<close>

datatype 'id node_data = NoData | Uri string | Target link_type 'id

datatype 'id rt_node =
    Text string "mark list"
  | Node node_type "'id node_data" "'id rt_node list"

text \<open>
  The transformer object. Its two maps are JavaScript objects read with \<open>map[key]\<close>;
  the values are the identifiers the destination has issued, of a type \<open>'id\<close> that the
  code never inspects except for truthiness. Every such identifier is taken to be truthy
  (a non-empty string), so a lookup is falsy exactly when the key is absent. The warnings
  of the object are passed through the block-level functions as a list, the newest last.
\<close>

record 'id transformer =
  assetMap :: "string \<rightharpoonup> 'id"
  entryMap :: "string \<rightharpoonup> 'id"
  preserveWhitespace :: bool
  stripShortcodes :: bool

definition createTextNode :: "string \<Rightarrow> 'id rt_node" where
  "createTextNode text = Text text []"

definition emptyParagraph :: "'id rt_node" where
  "emptyParagraph = Node PARAGRAPH NoData [createTextNode []]"

definition emptyDocument :: "'id rt_node" where
  "emptyDocument = Node DOCUMENT NoData [emptyParagraph]"

definition getMarkType :: "string \<Rightarrow> mark option" where
  "getMarkType tag =
     map_of
       [(''strong'', Bold), (''b'', Bold), (''em'', Italic), (''i'', Italic),
        (''u'', Underline), (''code'', Code), (''mark'', Bold), (''sub'', Subscript),
        (''sup'', Superscript)] tag"

definition extractWpPostIdFromUrl :: "string \<Rightarrow> js_number" where
  "extractWpPostIdFromUrl url =
     (if url = [] then NaN
      else case match_post_param url of Some ds \<Rightarrow> parseInt ds | None \<Rightarrow> NaN)"

text \<open>The body of the \<open>map\<close> callback in \<open>wrapWithMark\<close>.\<close>

fun add_mark :: "mark \<Rightarrow> 'id rt_node \<Rightarrow> 'id rt_node" where
  "add_mark m (Text v ms) = Text v (ms @ [m])"
| "add_mark m (Node nt d cs) = Node nt d cs"

definition inline_formatting_tags :: "string list" where
  "inline_formatting_tags = [''strong'', ''b'', ''em'', ''i'', ''u'', ''code'', ''mark'']"

subsection \<open>Inline context\<close>

text \<open>
  \<open>inline_children\<close> is the \<open>for\<close> loop of \<open>processInlineContent\<close> over the child
  nodes; it returns what the loop pushes onto \<open>results\<close>.
\<close>

fun processInlineContent :: "'id transformer \<Rightarrow> html_node \<Rightarrow> bool \<Rightarrow> 'id rt_node list"
  and inline_children :: "'id transformer \<Rightarrow> bool \<Rightarrow> html_node list \<Rightarrow> 'id rt_node list"
  and wrapWithMark :: "'id transformer \<Rightarrow> html_node \<Rightarrow> mark option \<Rightarrow> 'id rt_node list"
  and createHyperlink :: "'id transformer \<Rightarrow> html_node \<Rightarrow> 'id rt_node" where
  "processInlineContent t (Element tg as ks) excludeNestedLists =
     (let results = inline_children t excludeNestedLists ks
      in if results = [] then [createTextNode []] else results)"
| "processInlineContent t (TextNode s) excludeNestedLists = [createTextNode []]"
| "processInlineContent t (CommentNode s) excludeNestedLists = [createTextNode []]"
| "inline_children t excludeNestedLists [] = []"
| "inline_children t excludeNestedLists (TextNode text # rest) =
     (if text \<noteq> [] then [createTextNode text] else [])
     @ inline_children t excludeNestedLists rest"
| "inline_children t excludeNestedLists (CommentNode s # rest) =
     inline_children t excludeNestedLists rest"
| "inline_children t excludeNestedLists (Element tg as ks # rest) =
     (let tag = toLowerCase tg in
      if excludeNestedLists \<and> (tag = ''ul'' \<or> tag = ''ol'') then []
      else if tag \<in> set inline_formatting_tags
        then wrapWithMark t (Element tg as ks) (getMarkType tag)
      else if tag = ''a'' then [createHyperlink t (Element tg as ks)]
      else if tag = ''br'' then [createTextNode [CHR 0x0A]]
      else if tag = ''img'' then []
      else processInlineContent t (Element tg as ks) excludeNestedLists)
     @ inline_children t excludeNestedLists rest"
| "wrapWithMark t node markType =
     (case markType of
        None \<Rightarrow> processInlineContent t node False
      | Some m \<Rightarrow> map (add_mark m) (processInlineContent t node False))"
| "createHyperlink t node =
     (let href = or_empty (getAttribute node ''href'');
          content0 = processInlineContent t node False;
          content = (if content0 = []
                     then [createTextNode (if href \<noteq> [] then href else ''link'')]
                     else content0);
          wpPostId = extractWpPostIdFromUrl href;
          contentfulEntryId =
            (if truthy_num wpPostId then entryMap t (''post_'' @ js_string_of_number wpPostId)
             else None)
      in case contentfulEntryId of
           Some e \<Rightarrow> Node ENTRY_HYPERLINK (Target Entry e) content
         | None \<Rightarrow> Node HYPERLINK (Uri href) content)"

subsection \<open>Block context\<close>

text \<open>
  \<open>createParagraph\<close> drops a paragraph whose content is one text-run with the empty
  value; \<open>content[0].value\<close> is undefined for a link node.
\<close>

fun is_empty_run :: "'id rt_node list \<Rightarrow> bool" where
  "is_empty_run [] = True"
| "is_empty_run [Text v ms] = (v = [])"
| "is_empty_run cs = False"

definition createParagraph :: "'id transformer \<Rightarrow> html_node \<Rightarrow> 'id rt_node option" where
  "createParagraph t node =
     (let content = processInlineContent t node False
      in if is_empty_run content then None else Some (Node PARAGRAPH NoData content))"

definition createHeading :: "'id transformer \<Rightarrow> html_node \<Rightarrow> nat \<Rightarrow> 'id rt_node option" where
  "createHeading t node level =
     (let content = processInlineContent t node False
      in if content = [] then None else Some (Node (HEADING level) NoData content))"

lemma size_list_filter_le: "size_list f (filter P xs) \<le> size_list f xs"
  by (induction xs) auto

lemma size_list_filter_less: "2 * size_list f (filter P xs) < Suc (Suc (Suc (2 * size_list f xs + k)))"
  using size_list_filter_le [of f P xs] by arith

text \<open>
  \<open>list_items\<close> is the loop of \<open>createList\<close> over the child nodes, \<open>nested_lists\<close>
  its inner loop over the lists directly below one item.
\<close>

function (sequential) createList :: "'id transformer \<Rightarrow> html_node \<Rightarrow> node_type \<Rightarrow> 'id rt_node option"
  and list_items :: "'id transformer \<Rightarrow> html_node list \<Rightarrow> 'id rt_node list"
  and nested_lists :: "'id transformer \<Rightarrow> html_node list \<Rightarrow> 'id rt_node list" where
  "createList t (Element tg as ks) listType =
     (let items = list_items t ks
      in if items = [] then None else Some (Node listType NoData items))"
| "createList t (TextNode s) listType = None"
| "createList t (CommentNode s) listType = None"
| "list_items t [] = []"
| "list_items t (Element tg as ks # rest) =
     (if toLowerCase tg = ''li''
      then (let nestedLists = filter is_list_element ks;
                listItemContent =
                  (if nestedLists \<noteq> []
                   then (let inlineContent = processInlineContent t (Element tg as ks) True
                         in (if inlineContent \<noteq> [] then [Node PARAGRAPH NoData inlineContent]
                             else [])
                            @ nested_lists t nestedLists)
                   else (let content = processInlineContent t (Element tg as ks) False
                         in if content \<noteq> [] then [Node PARAGRAPH NoData content] else []))
            in if listItemContent \<noteq> [] then [Node LIST_ITEM NoData listItemContent] else [])
      else [])
     @ list_items t rest"
| "list_items t (TextNode s # rest) = list_items t rest"
| "list_items t (CommentNode s # rest) = list_items t rest"
| "nested_lists t [] = []"
| "nested_lists t (nestedList # rest) =
     (let nestedType = (if lowerTag nestedList = Some ''ul'' then UL_LIST else OL_LIST)
      in case createList t nestedList nestedType of None \<Rightarrow> [] | Some nested \<Rightarrow> [nested])
     @ nested_lists t rest"
  by pat_completeness auto
termination
  by (relation "measure (\<lambda>x. case x of
          Inl (t, n, ty) \<Rightarrow> 2 * size n + 1
        | Inr (Inl (t, ns)) \<Rightarrow> 2 * size_list size ns + 1
        | Inr (Inr (t, ns)) \<Rightarrow> 2 * size_list size ns + 2)")
     (auto simp: size_list_filter_less)

text \<open>The image's source id, by the three strategies, and the node it becomes.\<close>

definition createEmbeddedAsset ::
  "'id transformer \<Rightarrow> string list \<Rightarrow> html_node \<Rightarrow> 'id rt_node \<times> string list" where
  "createEmbeddedAsset t warnings imgNode =
     (let src = or_empty (getAttribute imgNode ''src'');
          classAttr = or_empty (getAttribute imgNode ''class'');
          dataId = getAttribute imgNode ''data-id'';
          wpId1 = (case dataId of None \<Rightarrow> NaN
                   | Some d \<Rightarrow> if d \<noteq> [] then parseInt d else NaN);
          wpId2 = (if \<not> truthy_num wpId1
                   then (case match_wp_image classAttr of
                           Some ds \<Rightarrow> parseInt ds | None \<Rightarrow> wpId1)
                   else wpId1);
          wpId = (if \<not> truthy_num wpId2
                  then (case match_url_segment src of
                          Some ds \<Rightarrow> parseInt ds | None \<Rightarrow> wpId2)
                  else wpId2);
          contentfulAssetId =
            (if truthy_num wpId then assetMap t (js_string_of_number wpId) else None)
      in case contentfulAssetId of
           None \<Rightarrow>
             (let alt = or_empty (getAttribute imgNode ''alt'')
              in (Node PARAGRAPH NoData
                    [Text (''[Image: '' @ (if alt \<noteq> [] then alt else src) @ '']'') [Italic]],
                  warnings @ [''Asset not found for image: '' @ take 100 src]))
         | Some a \<Rightarrow> (Node EMBEDDED_ASSET (Target Asset a) [], warnings))"

definition processFigure ::
  "'id transformer \<Rightarrow> string list \<Rightarrow> html_node \<Rightarrow> 'id rt_node list \<times> string list" where
  "processFigure t warnings node =
     (let (results1, warnings1) =
            (case querySelector ''img'' node of
               None \<Rightarrow> ([], warnings)
             | Some img \<Rightarrow>
                 (let (asset, w) = createEmbeddedAsset t warnings img in ([asset], w)));
          results2 =
            (case querySelector ''figcaption'' node of
               None \<Rightarrow> []
             | Some figcaption \<Rightarrow>
                 (case createParagraph t figcaption of None \<Rightarrow> [] | Some caption \<Rightarrow> [caption]))
      in (results1 @ results2, warnings1))"

definition tableToText :: "html_node \<Rightarrow> 'id rt_node" where
  "tableToText tableNode =
     (let rows = querySelectorAll [''tr''] tableNode;
          textRows =
            map (\<lambda>row. join '' | ''
                   (map (\<lambda>cell. trim (textContent cell)) (querySelectorAll [''td'', ''th''] row)))
              rows
      in Node PARAGRAPH NoData [Text (join [CHR 0x0A] textRows) []])"

text \<open>
  \<open>processNode\<close> returns \<open>null\<close>, one node or an array of nodes, and \<open>processNodes\<close>
  tells them apart when it collects them.
\<close>

datatype 'id processed = RNull | RNode "'id rt_node" | RArray "'id rt_node list"

fun pushed :: "'id processed \<Rightarrow> 'id rt_node list" where
  "pushed RNull = []"
| "pushed (RNode n) = [n]"
| "pushed (RArray ns) = ns"

fun of_option :: "'id rt_node option \<Rightarrow> 'id processed" where
  "of_option None = RNull"
| "of_option (Some n) = RNode n"

fun is_paragraph :: "'id rt_node \<Rightarrow> bool" where
  "is_paragraph (Node nt d cs) = (nt = PARAGRAPH)"
| "is_paragraph (Text v ms) = False"

definition container_tags :: "string list" where
  "container_tags =
     [''div'', ''section'', ''article'', ''main'', ''aside'', ''header'', ''footer'', ''span'']"

definition mark_tags :: "string list" where
  "mark_tags = [''strong'', ''b'', ''em'', ''i'', ''u'', ''code'', ''mark'', ''sub'', ''sup'']"

fun processNodes ::
    "'id transformer \<Rightarrow> string list \<Rightarrow> html_node list \<Rightarrow> 'id rt_node list \<times> string list"
  and processNode ::
    "'id transformer \<Rightarrow> string list \<Rightarrow> html_node \<Rightarrow> 'id processed \<times> string list"
  and createBlockquote ::
    "'id transformer \<Rightarrow> string list \<Rightarrow> html_node \<Rightarrow> 'id rt_node \<times> string list" where
  "processNodes t warnings [] = ([], warnings)"
| "processNodes t warnings (node # rest) =
     (case processNode t warnings node of
        (processed, warnings1) \<Rightarrow>
          (case processNodes t warnings1 rest of
             (results, warnings2) \<Rightarrow> (pushed processed @ results, warnings2)))"
| "processNode t warnings (TextNode text) =
     (if trim text = [] \<and> \<not> preserveWhitespace t then (RNull, warnings)
      else (RNode (createTextNode text), warnings))"
| "processNode t warnings (CommentNode s) = (RNull, warnings)"
| "processNode t warnings (Element tg as ks) =
     (let tag = toLowerCase tg; node = Element tg as ks in
      if tag = [] then (RNull, warnings)
      else if tag = ''p'' then (of_option (createParagraph t node), warnings)
      else if tag = ''h1'' \<or> tag = ''h2'' then (of_option (createHeading t node 2), warnings)
      else if tag = ''h3'' then (of_option (createHeading t node 3), warnings)
      else if tag = ''h4'' \<or> tag = ''h5'' \<or> tag = ''h6''
        then (of_option (createHeading t node 4), warnings)
      else if tag = ''ul'' then (of_option (createList t node UL_LIST), warnings)
      else if tag = ''ol'' then (of_option (createList t node OL_LIST), warnings)
      else if tag = ''blockquote''
        then (case createBlockquote t warnings (Element tg as ks) of
                (quote, warnings1) \<Rightarrow> (RNode quote, warnings1))
      else if tag = ''pre'' then (of_option (createParagraph t node), warnings)
      else if tag = ''hr'' then (RNode (Node HR NoData []), warnings)
      else if tag = ''table''
        then (RNode (tableToText node),
              warnings @ [''Table converted to text (not supported in Rich Text)''])
      else if tag = ''img''
        then (case createEmbeddedAsset t warnings node of
                (asset, warnings1) \<Rightarrow> (RNode asset, warnings1))
      else if tag = ''figure''
        then (case processFigure t warnings node of
                (results, warnings1) \<Rightarrow> (RArray results, warnings1))
      else if tag = ''video'' \<or> tag = ''audio''
        then (RNull, warnings @ [tag @ '' element skipped (not directly supported)''])
      else if tag = ''iframe''
        then (RNull, warnings @ [''iframe skipped (embed content manually)''])
      else if tag = ''a'' then (RNode (createHyperlink t node), warnings)
      else if tag \<in> set container_tags
        then (case processNodes t warnings ks of
                (results, warnings1) \<Rightarrow> (RArray results, warnings1))
      else if tag = ''br'' then (RNode (createTextNode [CHR 0x0A]), warnings)
      else if tag \<in> set mark_tags then (RArray (wrapWithMark t node (getMarkType tag)), warnings)
      else (case processNodes t warnings ks of
              (results, warnings1) \<Rightarrow> (RArray results, warnings1)))"
| "createBlockquote t warnings (Element tg as ks) =
     (case processNodes t warnings ks of
        (blocks, warnings1) \<Rightarrow>
          (let content =
                 (if blocks \<noteq> [] then blocks
                  else [Node PARAGRAPH NoData (processInlineContent t (Element tg as ks) False)])
           in (Node QUOTE NoData (filter is_paragraph content), warnings1)))"
| "createBlockquote t warnings (TextNode s) =
     (Node QUOTE NoData [Node PARAGRAPH NoData (processInlineContent t (TextNode s) False)],
      warnings)"
| "createBlockquote t warnings (CommentNode s) =
     (Node QUOTE NoData [Node PARAGRAPH NoData (processInlineContent t (CommentNode s) False)],
      warnings)"

subsection \<open>transform\<close>

text \<open>
  The argument of \<open>transform\<close> is a string or anything else (\<open>null\<close>, \<open>undefined\<close>,
  a number, an object). The two string rewrites before parsing are chains of regular
  expression replacements, and the parser is a library; the transformer is defined for
  any three such functions, \<open>parse\<close> giving the child nodes of the parsed root.
\<close>

datatype js_arg = JsString string | JsOther

record html_front =
  stripShortcodes_rx :: "string \<Rightarrow> string"
  preprocessGutenbergBlocks :: "string \<Rightarrow> string"
  parse :: "string \<Rightarrow> html_node list"

definition transform ::
  "html_front \<Rightarrow> 'id transformer \<Rightarrow> js_arg \<Rightarrow> 'id rt_node \<times> string list" where
  "transform fe t wpHtml =
     (case wpHtml of
        JsOther \<Rightarrow> (emptyDocument, [])
      | JsString s \<Rightarrow>
          if s = [] then (emptyDocument, [])
          else (let html = (if stripShortcodes t then stripShortcodes_rx fe s else s);
                    html' = preprocessGutenbergBlocks fe html;
                    (content, warnings) = processNodes t [] (parse fe html');
                    finalContent = (if content \<noteq> [] then content else [emptyParagraph])
                in (Node DOCUMENT NoData finalContent, warnings)))"

text \<open>\<open>new RichTextTransformer(assetMap, entryMap)\<close>, with the default options.\<close>

definition new_transformer :: "(string \<rightharpoonup> 'id) \<Rightarrow> (string \<rightharpoonup> 'id) \<Rightarrow> 'id transformer" where
  "new_transformer am em =
     \<lparr>assetMap = am, entryMap = em, preserveWhitespace = False, stripShortcodes = True\<rparr>"

section \<open>The migration of the content (04-migrate-content.js)\<close>

subsection \<open>The export and the destination\<close>

text \<open>
  The entities of \<open>wp-export.json\<close>, with the fields the script reads. An id is a
  natural number, and \<open>0\<close> in a reference field means that there is none. A field
  read with \<open>?.rendered\<close> may be missing.
\<close>

record wp_user =
  user_id :: nat
  user_name :: string
  user_slug :: string
  user_description :: "string option"

record wp_category =
  cat_id :: nat
  cat_name :: "string option"
  cat_slug :: string
  cat_description :: "string option"
  cat_parent :: nat

record wp_tag =
  tag_id :: nat
  tag_name :: "string option"
  tag_slug :: string

record wp_post =
  post_id :: nat
  post_title :: "string option"
  post_slug :: string
  post_date :: string
  post_modified :: string
  post_excerpt :: "string option"
  post_content :: "string option"
  post_categories :: "nat list"
  post_tags :: "nat list"
  post_author :: nat
  post_featured_media :: nat
  post_yoast :: "(string \<times> string) option"

record wp_page =
  page_id :: nat
  page_title :: "string option"
  page_slug :: string
  page_content :: "string option"
  page_parent :: nat
  page_featured_media :: nat
  page_template :: string
  page_yoast :: "(string \<times> string) option"

record wp_data =
  users :: "wp_user list"
  categories :: "wp_category list"
  tags :: "wp_tag list"
  posts :: "wp_post list"
  pages :: "wp_page list"

text \<open>
  A field of an entry, under its one locale \<open>en-US\<close>: a string, a number, a link made
  by \<open>createLink\<close>, an array of such links, or a rich text document.
\<close>

datatype 'id field_value =
    FString string
  | FNumber nat
  | FLink link_type 'id
  | FLinks link_type "'id list"
  | FRichText "'id rt_node"

type_synonym 'id fields = "(string \<times> 'id field_value) list"

text \<open>
  The destination is the Contentful environment. \<open>createEntry\<close> answers with the new
  entry's \<open>sys.id\<close> or raises, \<open>publish\<close> returns or raises; an error is its message.
  The answer to a call is a function of the call. Every call made is recorded.
\<close>

datatype 'id request = CreateEntry string "'id fields" | Publish 'id

record 'id destination =
  createEntry :: "string \<Rightarrow> 'id fields \<Rightarrow> string + 'id"
  publish :: "'id \<Rightarrow> string option"

text \<open>
  What one run is given: \<open>asset-map.json\<close>, the environment variable
  \<open>BATCH_SIZE\<close> as \<open>parseInt\<close> reads it, the destination, the string functions in
  front of the transformer, and the chain of replacements inside \<open>sanitizeText\<close>.
\<close>

record 'id config =
  asset_map_file :: "string \<rightharpoonup> 'id"
  batch_size_env :: "nat option"
  dest :: "'id destination"
  front :: html_front
  sanitize_rx :: "string \<Rightarrow> string"

definition BATCH_SIZE :: "'id config \<Rightarrow> nat" where
  "BATCH_SIZE cfg = (case batch_size_env cfg of None \<Rightarrow> 5 | Some n \<Rightarrow> if n = 0 then 5 else n)"

definition sanitizeText :: "'id config \<Rightarrow> string option \<Rightarrow> string" where
  "sanitizeText cfg text =
     (case text of None \<Rightarrow> [] | Some s \<Rightarrow> if s = [] then [] else sanitize_rx cfg s)"

subsection \<open>One entity\<close>

record stats =
  total :: nat
  migrated :: nat
  skipped :: nat
  failed :: nat

text \<open>
  The state of the run: the entry map in memory, the counters of the family at hand,
  the entry map as last written to \<open>entry-map.json\<close>, the calls made to the
  destination, and the failures reported (entity id and message).
\<close>

record 'id progress =
  entry_map :: "string \<rightharpoonup> 'id"
  counts :: stats
  saved :: "string \<rightharpoonup> 'id"
  writes :: "'id request list"
  failures :: "(nat \<times> string) list"

text \<open>\<open>environment.createEntry(...)\<close> followed by \<open>entry.publish()\<close>.\<close>

definition create_and_publish ::
  "'id config \<Rightarrow> string \<Rightarrow> 'id fields \<Rightarrow> (string + 'id) \<times> 'id request list" where
  "create_and_publish cfg contentType fs =
     (case createEntry (dest cfg) contentType fs of
        Inl err \<Rightarrow> (Inl err, [CreateEntry contentType fs])
      | Inr newId \<Rightarrow>
          (case publish (dest cfg) newId of
             Some err \<Rightarrow> (Inl err, [CreateEntry contentType fs, Publish newId])
           | None \<Rightarrow> (Inr newId, [CreateEntry contentType fs, Publish newId])))"

text \<open>
  The body of each of the five loops: skip an entity whose key is in the map; otherwise
  run the \<open>try\<close> block \<open>attempt\<close>, which ends with the id of the published entry or
  with an error, and either set the mapping or count the failure.
\<close>

definition migrate_entity ::
  "('e \<Rightarrow> string) \<Rightarrow> ('e \<Rightarrow> nat) \<Rightarrow>
   ((string \<rightharpoonup> 'id) \<Rightarrow> 'e \<Rightarrow> (string + 'id) \<times> 'id request list) \<Rightarrow>
   'id progress \<Rightarrow> 'e \<Rightarrow> 'id progress" where
  "migrate_entity mapKey ident attempt s e =
     (case entry_map s (mapKey e) of
        Some existing \<Rightarrow> s\<lparr>counts := (counts s)\<lparr>skipped := skipped (counts s) + 1\<rparr>\<rparr>
      | None \<Rightarrow>
          (case attempt (entry_map s) e of
             (Inr newId, ws) \<Rightarrow>
               s\<lparr>entry_map := (entry_map s)(mapKey e \<mapsto> newId),
                 counts := (counts s)\<lparr>migrated := migrated (counts s) + 1\<rparr>,
                 writes := writes s @ ws\<rparr>
           | (Inl err, ws) \<Rightarrow>
               s\<lparr>counts := (counts s)\<lparr>failed := failed (counts s) + 1\<rparr>,
                 writes := writes s @ ws,
                 failures := failures s @ [(ident e, err)]\<rparr>))"

definition migrate_entities ::
  "('e \<Rightarrow> string) \<Rightarrow> ('e \<Rightarrow> nat) \<Rightarrow>
   ((string \<rightharpoonup> 'id) \<Rightarrow> 'e \<Rightarrow> (string + 'id) \<times> 'id request list) \<Rightarrow>
   'id progress \<Rightarrow> 'e list \<Rightarrow> 'id progress" where
  "migrate_entities mapKey ident attempt s es = foldl (migrate_entity mapKey ident attempt) s es"

definition saveProgress :: "'id progress \<Rightarrow> 'id progress" where
  "saveProgress s = s\<lparr>saved := entry_map s\<rparr>"

definition start_family :: "nat \<Rightarrow> 'id progress \<Rightarrow> 'id progress" where
  "start_family n s = s\<lparr>counts := \<lparr>total = n, migrated = 0, skipped = 0, failed = 0\<rparr>\<rparr>"

subsection \<open>The five families\<close>

definition author_key :: "wp_user \<Rightarrow> string" where
  "author_key user = ''author_'' @ decimal (user_id user)"

definition cat_key :: "wp_category \<Rightarrow> string" where
  "cat_key cat = ''cat_'' @ decimal (cat_id cat)"

definition tag_key :: "wp_tag \<Rightarrow> string" where
  "tag_key tag = ''tag_'' @ decimal (tag_id tag)"

definition post_key :: "wp_post \<Rightarrow> string" where
  "post_key post = ''post_'' @ decimal (post_id post)"

definition page_key :: "wp_page \<Rightarrow> string" where
  "page_key page = ''page_'' @ decimal (page_id page)"

definition attempt_author ::
  "'id config \<Rightarrow> (string \<rightharpoonup> 'id) \<Rightarrow> wp_user \<Rightarrow> (string + 'id) \<times> 'id request list" where
  "attempt_author cfg entries user =
     create_and_publish cfg ''author''
       [(''name'', FString (user_name user)),
        (''slug'', FString (user_slug user)),
        (''bio'', FString (sanitizeText cfg (user_description user))),
        (''wpId'', FNumber (user_id user))]"

definition attempt_category ::
  "'id config \<Rightarrow> (string \<rightharpoonup> 'id) \<Rightarrow> wp_category \<Rightarrow> (string + 'id) \<times> 'id request list" where
  "attempt_category cfg entries cat =
     create_and_publish cfg ''category''
       ([(''name'', FString (sanitizeText cfg (cat_name cat))),
         (''slug'', FString (cat_slug cat)),
         (''description'', FString (sanitizeText cfg (cat_description cat))),
         (''wpId'', FNumber (cat_id cat))]
        @ (if cat_parent cat \<noteq> 0
           then (case entries (''cat_'' @ decimal (cat_parent cat)) of
                   Some parent \<Rightarrow> [(''parent'', FLink Entry parent)]
                 | None \<Rightarrow> [])
           else []))"

definition attempt_tag ::
  "'id config \<Rightarrow> (string \<rightharpoonup> 'id) \<Rightarrow> wp_tag \<Rightarrow> (string + 'id) \<times> 'id request list" where
  "attempt_tag cfg entries tag =
     create_and_publish cfg ''tag''
       [(''name'', FString (sanitizeText cfg (tag_name tag))),
        (''slug'', FString (tag_slug tag)),
        (''wpId'', FNumber (tag_id tag))]"

text \<open>The optional search-engine fields, from \<open>yoast_head_json\<close>.\<close>

definition seo_fields :: "(string \<times> string) option \<Rightarrow> 'id fields" where
  "seo_fields yoast =
     (case yoast of
        None \<Rightarrow> []
      | Some (title, description) \<Rightarrow>
          (if title \<noteq> [] then [(''seoTitle'', FString title)] else [])
          @ (if description \<noteq> [] then [(''seoDescription'', FString (take 160 description))]
             else []))"

definition featured_image :: "'id config \<Rightarrow> nat \<Rightarrow> 'id option" where
  "featured_image cfg media =
     (if media \<noteq> 0 then asset_map_file cfg (decimal media) else None)"

text \<open>
  The transformer was built once, around the asset map and the very object that is the
  entry map, so each call of \<open>transform\<close> sees the entry map as it is at that moment.
\<close>

definition attempt_post ::
  "'id config \<Rightarrow> (string \<rightharpoonup> 'id) \<Rightarrow> wp_post \<Rightarrow> (string + 'id) \<times> 'id request list" where
  "attempt_post cfg entries post =
     (let categoryLinks =
            List.map_filter (\<lambda>catId. entries (''cat_'' @ decimal catId)) (post_categories post);
          tagLinks =
            List.map_filter (\<lambda>tagId. entries (''tag_'' @ decimal tagId)) (post_tags post);
          authorId = entries (''author_'' @ decimal (post_author post));
          featuredImageId = featured_image cfg (post_featured_media post);
          richTextContent =
            fst (transform (front cfg) (new_transformer (asset_map_file cfg) entries)
                   (JsString (or_empty (post_content post))))
      in create_and_publish cfg ''blogPost''
           ([(''title'', FString (sanitizeText cfg (post_title post))),
             (''slug'', FString (post_slug post)),
             (''publishDate'', FString (post_date post)),
             (''modifiedDate'', FString (post_modified post)),
             (''excerpt'', FString (sanitizeText cfg (post_excerpt post))),
             (''content'', FRichText richTextContent),
             (''wpId'', FNumber (post_id post))]
            @ (if categoryLinks \<noteq> [] then [(''categories'', FLinks Entry categoryLinks)] else [])
            @ (if tagLinks \<noteq> [] then [(''tags'', FLinks Entry tagLinks)] else [])
            @ (case authorId of Some a \<Rightarrow> [(''author'', FLink Entry a)] | None \<Rightarrow> [])
            @ (case featuredImageId of
                 Some f \<Rightarrow> [(''featuredImage'', FLink Asset f)] | None \<Rightarrow> [])
            @ seo_fields (post_yoast post)))"

definition page_templates :: "string list" where
  "page_templates = [''default'', ''full-width'', ''sidebar'', ''landing'']"

text \<open>A page is written as two entries: its rich text section first, then the page.\<close>

definition attempt_page ::
  "'id config \<Rightarrow> (string \<rightharpoonup> 'id) \<Rightarrow> wp_page \<Rightarrow> (string + 'id) \<times> 'id request list" where
  "attempt_page cfg entries page =
     (let richTextContent =
            fst (transform (front cfg) (new_transformer (asset_map_file cfg) entries)
                   (JsString (or_empty (page_content page))));
          sectionTitle =
            (if sanitizeText cfg (page_title page) \<noteq> [] then sanitizeText cfg (page_title page)
             else ''Content'')
      in case create_and_publish cfg ''richTextSection''
                [(''internalTitle'', FString (sectionTitle @ '' (Content)'')),
                 (''content'', FRichText richTextContent),
                 (''wpId'', FNumber (page_id page))] of
           (Inl err, ws) \<Rightarrow> (Inl err, ws)
         | (Inr sectionId, ws) \<Rightarrow>
             (case create_and_publish cfg ''page''
                     ([(''title'', FString sectionTitle),
                       (''slug'', FString (page_slug page)),
                       (''sections'', FLinks Entry [sectionId]),
                       (''template'',
                        FString (if page_template page \<in> set page_templates
                                 then page_template page else ''default'')),
                       (''wpId'', FNumber (page_id page))]
                      @ (if page_parent page \<noteq> 0
                         then (case entries (''page_'' @ decimal (page_parent page)) of
                                 Some parent \<Rightarrow> [(''parent'', FLink Entry parent)]
                               | None \<Rightarrow> [])
                         else [])
                      @ (case featured_image cfg (page_featured_media page) of
                           Some f \<Rightarrow> [(''featuredImage'', FLink Asset f)] | None \<Rightarrow> [])
                      @ seo_fields (page_yoast page)) of
                (r, ws') \<Rightarrow> (r, ws @ ws')))"

subsection \<open>The run\<close>

definition migrate_authors :: "'id config \<Rightarrow> 'id progress \<Rightarrow> wp_user list \<Rightarrow> 'id progress" where
  "migrate_authors cfg s us =
     saveProgress
       (migrate_entities author_key user_id (attempt_author cfg) (start_family (length us) s) us)"

text \<open>
  \<open>[...categories].sort((a, b) => a.parent - b.parent)\<close>: ascending in the parent id,
  entities with the same parent staying in their order.
\<close>

definition migrate_categories ::
  "'id config \<Rightarrow> 'id progress \<Rightarrow> wp_category list \<Rightarrow> 'id progress" where
  "migrate_categories cfg s cs =
     saveProgress
       (migrate_entities cat_key cat_id (attempt_category cfg) (start_family (length cs) s)
          (sort_key cat_parent cs))"

definition migrate_tags :: "'id config \<Rightarrow> 'id progress \<Rightarrow> wp_tag list \<Rightarrow> 'id progress" where
  "migrate_tags cfg s ts =
     saveProgress
       (migrate_entities tag_key tag_id (attempt_tag cfg) (start_family (length ts) s) ts)"

lemma BATCH_SIZE_pos: "0 < BATCH_SIZE cfg"
  by (simp add: BATCH_SIZE_def split: option.splits)

lemma next_batch_closer: "i < n \<Longrightarrow> n - (i + BATCH_SIZE cfg) < n - i"
  using BATCH_SIZE_pos [of cfg] by arith

text \<open>
  The posts go in batches: \<open>for (let i = 0; i < posts.length; i += BATCH_SIZE)\<close>, each
  batch being \<open>posts.slice(i, i + BATCH_SIZE)\<close>, and the entry map is saved after each.
\<close>

function post_batches :: "'id config \<Rightarrow> 'id progress \<Rightarrow> nat \<Rightarrow> wp_post list \<Rightarrow> 'id progress" where
  "post_batches cfg s i ps =
     (if i < length ps
      then (let batch = take (BATCH_SIZE cfg) (drop i ps);
                s' = migrate_entities post_key post_id (attempt_post cfg) s batch
            in post_batches cfg (saveProgress s') (i + BATCH_SIZE cfg) ps)
      else s)"
  by pat_completeness auto
termination
  by (relation "measure (\<lambda>(cfg, s, i, ps). length ps - i)") (auto simp: next_batch_closer)

declare post_batches.simps [simp del]

definition migrate_posts :: "'id config \<Rightarrow> 'id progress \<Rightarrow> wp_post list \<Rightarrow> 'id progress" where
  "migrate_posts cfg s ps = post_batches cfg (start_family (length ps) s) 0 ps"

definition migrate_pages :: "'id config \<Rightarrow> 'id progress \<Rightarrow> wp_page list \<Rightarrow> 'id progress" where
  "migrate_pages cfg s ps =
     saveProgress
       (migrate_entities page_key page_id (attempt_page cfg) (start_family (length ps) s)
          (sort_key page_parent ps))"

text \<open>
  \<open>migrateContent\<close>, from the point where the export, the asset map and the entry map
  of an earlier run (or \<open>{}\<close>) have been read: the five families in their order, and
  the counters of each next to the final state.
\<close>

record 'id summary =
  authors_stats :: stats
  categories_stats :: stats
  tags_stats :: stats
  posts_stats :: stats
  pages_stats :: stats
  final :: "'id progress"

definition migrateContent :: "'id config \<Rightarrow> wp_data \<Rightarrow> (string \<rightharpoonup> 'id) \<Rightarrow> 'id summary" where
  "migrateContent cfg wpData loaded =
     (let s0 = \<lparr>entry_map = loaded,
                counts = \<lparr>total = 0, migrated = 0, skipped = 0, failed = 0\<rparr>,
                saved = loaded, writes = [], failures = []\<rparr>;
          s1 = migrate_authors cfg s0 (users wpData);
          s2 = migrate_categories cfg s1 (categories wpData);
          s3 = migrate_tags cfg s2 (tags wpData);
          s4 = migrate_posts cfg s3 (posts wpData);
          s5 = migrate_pages cfg s4 (pages wpData)
      in \<lparr>authors_stats = counts s1, categories_stats = counts s2, tags_stats = counts s3,
          posts_stats = counts s4, pages_stats = counts s5, final = s5\<rparr>)"

section \<open>Notions used to state the properties\<close>

text \<open>
  A front end that leaves the string alone and whose parser reads it as the given nodes;
  it lets a concrete HTML string be paired with the tree it denotes.
\<close>

definition parsed_as :: "html_node list \<Rightarrow> html_front" where
  "parsed_as nodes =
     \<lparr>stripShortcodes_rx = (\<lambda>s. s), preprocessGutenbergBlocks = (\<lambda>s. s), parse = (\<lambda>s. nodes)\<rparr>"

text \<open>
  Document validity: every node with a content array has a non-empty one, unless it is a
  horizontal rule or an embedded asset.
\<close>

fun valid_node :: "'id rt_node \<Rightarrow> bool" where
  "valid_node (Text v ms) = True"
| "valid_node (Node nt d cs) =
     ((nt = HR \<or> nt = EMBEDDED_ASSET \<or> cs \<noteq> []) \<and> list_all valid_node cs)"

text \<open>
  The same, except that a blockquote may have an empty content array.
\<close>

fun valid_apart_from_quotes :: "'id rt_node \<Rightarrow> bool" where
  "valid_apart_from_quotes (Text v ms) = True"
| "valid_apart_from_quotes (Node nt d cs) =
     ((nt = HR \<or> nt = EMBEDDED_ASSET \<or> nt = QUOTE \<or> cs \<noteq> [])
      \<and> list_all valid_apart_from_quotes cs)"

text \<open>No text-run of the tree carries a mark twice.\<close>

fun marks_distinct :: "'id rt_node \<Rightarrow> bool" where
  "marks_distinct (Text v ms) = distinct ms"
| "marks_distinct (Node nt d cs) = list_all marks_distinct cs"

text \<open>Elements nested one inside the other, the first tag outermost, around one node.\<close>

fun nest :: "string list \<Rightarrow> html_node \<Rightarrow> html_node" where
  "nest [] n = n"
| "nest (tg # tgs) n = Element tg [] [nest tgs n]"





text \<open>Every entity of the export has its key in the map.\<close>

definition fully_populated :: "wp_data \<Rightarrow> (string \<rightharpoonup> 'id) \<Rightarrow> bool" where
  "fully_populated wpData m =
     (list_all (\<lambda>u. m (author_key u) \<noteq> None) (users wpData)
      \<and> list_all (\<lambda>c. m (cat_key c) \<noteq> None) (categories wpData)
      \<and> list_all (\<lambda>t. m (tag_key t) \<noteq> None) (tags wpData)
      \<and> list_all (\<lambda>p. m (post_key p) \<noteq> None) (posts wpData)
      \<and> list_all (\<lambda>p. m (page_key p) \<noteq> None) (pages wpData))"

definition all_skipped :: "nat \<Rightarrow> stats" where
  "all_skipped n = \<lparr>total = n, migrated = 0, skipped = n, failed = 0\<rparr>"

text \<open>
  A small run to exercise the theorems on: a destination that refuses the entity with
  id 2 and names every other entry after its content type and id, batches of two, and an
  export with one author and two posts.
\<close>

definition example_dest :: "string destination" where
  "example_dest =
     \<lparr>createEntry =
        (\<lambda>contentType fs.
           case map_of fs ''wpId'' of
             Some (FNumber n) \<Rightarrow>
               if n = 2 then Inl ''Server error'' else Inr (contentType @ ''-'' @ decimal n)
           | _ \<Rightarrow> Inl ''wpId missing''),
      publish = (\<lambda>newId. None)\<rparr>"

definition example_config :: "string config" where
  "example_config =
     \<lparr>asset_map_file = Map.empty, batch_size_env = Some 2, dest = example_dest,
      front = parsed_as [], sanitize_rx = (\<lambda>s. s)\<rparr>"

definition example_user :: "nat \<Rightarrow> wp_user" where
  "example_user n =
     \<lparr>user_id = n, user_name = ''name'', user_slug = ''slug'', user_description = None\<rparr>"

definition example_post :: "nat \<Rightarrow> wp_post" where
  "example_post n =
     \<lparr>post_id = n, post_title = Some ''title'', post_slug = ''slug'', post_date = ''2024-01-01'',
      post_modified = ''2024-01-02'', post_excerpt = None, post_content = None,
      post_categories = [], post_tags = [], post_author = 0, post_featured_media = 0,
      post_yoast = None\<rparr>"

definition fresh_progress :: "(string \<rightharpoonup> 'id) \<Rightarrow> 'id progress" where
  "fresh_progress loaded =
     \<lparr>entry_map = loaded, counts = \<lparr>total = 0, migrated = 0, skipped = 0, failed = 0\<rparr>,
      saved = loaded, writes = [], failures = []\<rparr>"

definition example_data :: wp_data where
  "example_data =
     \<lparr>users = [example_user 1], categories = [], tags = [],
      posts = [example_post 1, example_post 3], pages = []\<rparr>"

definition example_map :: "string \<rightharpoonup> string" where
  "example_map =
     [''author_1'' \<mapsto> ''author-1'', ''post_1'' \<mapsto> ''blogPost-1'', ''post_3'' \<mapsto> ''blogPost-3'']"

section \<open>Facts about the string functions\<close>

lemmas string_eval =
  toLowerCase_def lower_char_def trim_def js_space_def createTextNode_def or_empty_def













section \<open>The transformer\<close>

text \<open>The inline content of a node is never the empty array.\<close>

lemma processInlineContent_nonempty: "processInlineContent t node excl \<noteq> []"
  by (cases node) (simp_all add: Let_def)

lemma add_mark_createHyperlink: "add_mark m (createHyperlink t node) = createHyperlink t node"
  by (simp add: Let_def split: option.splits)

subsection \<open>Blockquotes and document validity\<close>

text \<open>
  C1 (document validity). For \<open><blockquote>hello</blockquote>\<close> the document that
  \<open>transform\<close> returns is not valid: its blockquote has an empty content array, although a
  blockquote is not a childless node type.
\<close>

theorem transform_blockquote_text_invalid:
  "\<not> valid_node
       (fst (transform (parsed_as [Element ''blockquote'' [] [TextNode ''hello'']]) t
               (JsString ''<blockquote>hello</blockquote>'')))"
  by (simp add: transform_def parsed_as_def string_eval)

text \<open>
  C2 (blockquote fallback). The same blockquote has one child block, a text-run, which
  the filter to paragraphs removes; the filter leaves zero blocks and no paragraph is
  put in their place, although the blockquote's own inline content is the text
  \<open>hello\<close>. The test for emptiness is made before the filter, not after it.
\<close>

theorem createBlockquote_filter_leaves_nothing:
  "createBlockquote t warnings (Element ''blockquote'' [] [TextNode ''hello''])
     = (Node QUOTE NoData [], warnings)
   \<and> processInlineContent t (Element ''blockquote'' [] [TextNode ''hello'']) False
     = [Text ''hello'' []]"
  by (simp add: string_eval)

text \<open>
  X2 (inline content). The inline content of a node is never the empty array: when a
  node yields nothing, one text-run with the empty value stands in.
\<close>

theorem inline_content_never_empty:
  "processInlineContent t node excludeNestedLists \<noteq> []
   \<and> (inline_children t excludeNestedLists (childNodes node) = [] \<longrightarrow>
        processInlineContent t node excludeNestedLists = [Text [] []])"
  by (cases node) (simp_all add: Let_def createTextNode_def)

theorem inline_content_never_empty_witness:
  "inline_children (new_transformer Map.empty Map.empty :: string transformer) False
     (childNodes (Element ''p'' [] [])) = []
   \<and> processInlineContent (new_transformer Map.empty Map.empty :: string transformer)
        (Element ''p'' [] []) False = [Text [] []]"
  using inline_content_never_empty
    [of "new_transformer Map.empty Map.empty :: string transformer" "Element ''p'' [] []" False]
  by simp

subsection \<open>Validity of everything but blockquotes\<close>

lemma valid_add_mark [simp]: "valid_apart_from_quotes (add_mark m x) = valid_apart_from_quotes x"
  by (cases x) simp_all

lemma list_all_valid_add_mark [simp]:
  "list_all valid_apart_from_quotes (map (add_mark m) xs) = list_all valid_apart_from_quotes xs"
  by (induction xs) simp_all

lemma inline_valid:
  "list_all valid_apart_from_quotes (processInlineContent t node excl)"
  "list_all valid_apart_from_quotes (inline_children t excl ns)"
  "list_all valid_apart_from_quotes (wrapWithMark t node mt)"
  "valid_apart_from_quotes (createHyperlink t node)"
proof (induction t node excl and t excl ns and t node mt and t node
    rule: processInlineContent_inline_children_wrapWithMark_createHyperlink.induct)
  case (1 t tg ats ks excludeNestedLists)
  then show ?case by (simp add: Let_def createTextNode_def)
next
  case (2 t s excludeNestedLists)
  then show ?case by (simp add: createTextNode_def)
next
  case (3 t s excludeNestedLists)
  then show ?case by (simp add: createTextNode_def)
next
  case (4 t excludeNestedLists)
  then show ?case by simp
next
  case (5 t excludeNestedLists tx rest)
  then show ?case by (simp add: createTextNode_def)
next
  case (6 t excludeNestedLists s rest)
  then show ?case by simp
next
  case (7 t excludeNestedLists tg ats ks rest)
  then show ?case
    by (simp add: Let_def createTextNode_def del: createHyperlink.simps wrapWithMark.simps
        processInlineContent.simps)
next
  case (8 t node markType)
  then show ?case by (cases markType) simp_all
next
  case (9 t node)
  have ne: "processInlineContent t node False \<noteq> []"
    by (rule processInlineContent_nonempty)
  show ?case
    using 9 ne by (simp add: Let_def split: option.splits)
qed

lemma createParagraph_valid:
  "createParagraph t node = Some p \<Longrightarrow> valid_apart_from_quotes p"
  using inline_valid(1) [of t node False] processInlineContent_nonempty [of t node False]
  by (auto simp: createParagraph_def Let_def split: if_splits)

lemma createHeading_valid:
  "createHeading t node level = Some p \<Longrightarrow> valid_apart_from_quotes p"
  using inline_valid(1) [of t node False]
  by (auto simp: createHeading_def Let_def split: if_splits)

lemma list_valid:
  "createList t node listType = Some p \<Longrightarrow> valid_apart_from_quotes p"
  "list_all valid_apart_from_quotes (list_items t ns)"
  "list_all valid_apart_from_quotes (nested_lists t ns)"
proof (induction t node listType and t ns and t ns arbitrary: p
    rule: createList_list_items_nested_lists.induct)
  case (1 t tg ats ks listType)
  then show ?case by (auto simp: Let_def split: if_splits)
next
  case (2 t s listType)
  then show ?case by simp
next
  case (3 t s listType)
  then show ?case by simp
next
  case (4 t)
  then show ?case by simp
next
  case (5 t tg ats ks rest)
  have inl: "list_all valid_apart_from_quotes (processInlineContent t (Element tg ats ks) b)" for b
    by (rule inline_valid(1))
  show ?case
    using 5 inl by (simp add: Let_def del: processInlineContent.simps)
next
  case (6 t s rest)
  then show ?case by simp
next
  case (7 t s rest)
  then show ?case by simp
next
  case (8 t)
  then show ?case by simp
next
  case (9 t nestedList rest)
  then show ?case by (auto simp: Let_def split: option.splits)
qed

lemma createEmbeddedAsset_valid:
  "valid_apart_from_quotes (fst (createEmbeddedAsset t warnings img))"
  by (simp add: createEmbeddedAsset_def Let_def split: option.splits)

lemma processFigure_valid:
  "list_all valid_apart_from_quotes (fst (processFigure t warnings node))"
  by (auto simp: processFigure_def Let_def split_beta createEmbeddedAsset_valid
      createParagraph_valid split: option.splits)

lemma tableToText_valid: "valid_apart_from_quotes (tableToText node)"
  by (simp add: tableToText_def Let_def)

lemma pushed_of_option_valid:
  "(\<And>p. r = Some p \<Longrightarrow> valid_apart_from_quotes p) \<Longrightarrow>
   list_all valid_apart_from_quotes (pushed (of_option r))"
  by (cases r) simp_all

lemma list_all_filter_valid:
  "list_all valid_apart_from_quotes xs \<Longrightarrow> list_all valid_apart_from_quotes (filter P xs)"
  by (induction xs) auto

lemma block_valid:
  "list_all valid_apart_from_quotes (fst (processNodes t warnings ns))"
  "list_all valid_apart_from_quotes (pushed (fst (processNode t warnings node)))"
  "valid_apart_from_quotes (fst (createBlockquote t warnings node))"
proof (induction t warnings ns and t warnings node and t warnings node
    rule: processNodes_processNode_createBlockquote.induct)
  case (1 t warnings)
  then show ?case by simp
next
  case (2 t warnings node rest)
  from "2.IH"(1) "2.IH"(2) [OF prod.collapse] show ?case
    by (simp add: split_beta)
next
  case (3 t warnings tx)
  then show ?case by (simp add: createTextNode_def)
next
  case (4 t warnings s)
  then show ?case by simp
next
  case (5 t warnings tg ats ks)
  let ?node = "Element tg ats ks"
  have para: "list_all valid_apart_from_quotes (pushed (of_option (createParagraph t ?node)))"
    by (rule pushed_of_option_valid) (rule createParagraph_valid)
  have head: "list_all valid_apart_from_quotes (pushed (of_option (createHeading t ?node n)))" for n
    by (rule pushed_of_option_valid) (rule createHeading_valid)
  have lst: "list_all valid_apart_from_quotes (pushed (of_option (createList t ?node ty)))" for ty
    by (rule pushed_of_option_valid) (rule list_valid(1))
  have asset: "valid_apart_from_quotes (fst (createEmbeddedAsset t warnings ?node))"
    by (rule createEmbeddedAsset_valid)
  have fig: "list_all valid_apart_from_quotes (fst (processFigure t warnings ?node))"
    by (rule processFigure_valid)
  have link: "valid_apart_from_quotes (createHyperlink t ?node)"
    by (rule inline_valid(4))
  have wrap: "list_all valid_apart_from_quotes (wrapWithMark t ?node m)" for m
    by (rule inline_valid(3))
  have tab: "valid_apart_from_quotes (tableToText ?node :: 'a rt_node)"
    by (rule tableToText_valid)
  show ?case
    using 5 para head lst asset fig link wrap tab
    by (simp add: Let_def createTextNode_def split_beta
        del: createHyperlink.simps wrapWithMark.simps createList.simps createBlockquote.simps)
next
  case (6 t warnings tg ats ks)
  have inl: "list_all valid_apart_from_quotes (processInlineContent t (Element tg ats ks) False)"
    by (rule inline_valid(1))
  show ?case
    using 6 inl
    by (simp add: Let_def list_all_filter_valid split_beta processInlineContent_nonempty
        del: processInlineContent.simps)
next
  case (7 t warnings s)
  then show ?case by (simp add: createTextNode_def)
next
  case (8 t warnings s)
  then show ?case by (simp add: createTextNode_def)
qed

text \<open>
  X1 (validity apart from blockquotes). For every argument of \<open>transform\<close>, string or
  not, and whatever the parser makes of the string, the returned tree is valid except
  for its blockquotes: every node other than a horizontal rule, an embedded asset or a
  blockquote has a non-empty content array.
\<close>

theorem transform_valid_apart_from_quotes:
  "valid_apart_from_quotes (fst (transform fe t wpHtml))"
proof (cases wpHtml)
  case JsOther
  then show ?thesis
    by (simp add: transform_def emptyDocument_def emptyParagraph_def createTextNode_def)
next
  case (JsString s)
  show ?thesis
  proof (cases "s = []")
    case True
    then show ?thesis
      using JsString
      by (simp add: transform_def emptyDocument_def emptyParagraph_def createTextNode_def)
  next
    case False
    then show ?thesis
      using JsString
      by (simp add: transform_def Let_def emptyParagraph_def createTextNode_def split_beta
          block_valid(1))
  qed
qed

subsection \<open>Anchors\<close>

text \<open>
  C8 (anchor fallback). An anchor without content, \<open><a href="https://example.com/"></a>\<close>,
  becomes a link whose only child is a text-run with the empty value: the inline content
  of the anchor is never the empty array, so the fallback to the URL is never taken.
\<close>

theorem createHyperlink_empty_anchor:
  "createHyperlink t (Element ''a'' [(''href'', ''https://example.com/'')] [])
     = Node HYPERLINK (Uri ''https://example.com/'') [Text [] []]"
  by (simp add: string_eval extractWpPostIdFromUrl_def starts_with_def Let_def truthy_num_def)






subsection \<open>Images\<close>

text \<open>
  An image in inline content adds nothing to it, whatever the asset map holds, and no
  warning is recorded: \<open><p><img class="wp-image-5" src="a.png"></p>\<close> comes out as the
  empty document although the asset map has an entry for \<open>5\<close>.
\<close>

lemma inline_image_adds_nothing:
  "inline_children t excludeNestedLists (Element ''img'' as ks # rest)
     = inline_children t excludeNestedLists rest"
  by (simp add: string_eval inline_formatting_tags_def)

lemma paragraph_image_lost:
  "transform
     (parsed_as [Element ''p'' [] [Element ''img'' [(''class'', ''wp-image-5''), (''src'', ''a.png'')] []]])
     (new_transformer [''5'' \<mapsto> ''A5''] Map.empty) (JsString ''<p><img class=wp-image-5 src=a.png></p>'')
     = (Node DOCUMENT NoData [Node PARAGRAPH NoData [Text [] []]], [])"
  by (simp add: transform_def parsed_as_def new_transformer_def string_eval Let_def
      inline_formatting_tags_def createParagraph_def emptyParagraph_def)




subsection \<open>Marks\<close>

text \<open>
  C7 as stated fails: \<open><p><strong><b>x</b></strong></p>\<close> yields a text-run that
  carries the bold mark twice.
\<close>

theorem repeated_formatting_repeats_mark:
  "\<not> marks_distinct
       (fst (transform
               (parsed_as [Element ''p'' [] [Element ''strong'' [] [Element ''b'' [] [TextNode ''x'']]]])
               (new_transformer Map.empty Map.empty :: string transformer)
               (JsString ''<p><strong><b>x</b></strong></p>'')))"
  by (simp add: transform_def parsed_as_def new_transformer_def string_eval Let_def
      inline_formatting_tags_def getMarkType_def createParagraph_def)

lemma formatting_tag_facts:
  assumes "tg \<in> set inline_formatting_tags"
  shows "toLowerCase tg = tg" "tg \<noteq> ''ul''" "tg \<noteq> ''ol''" "\<exists>m. getMarkType tg = Some m"
  using assms by (auto simp: inline_formatting_tags_def string_eval getMarkType_def)

lemma nest_marks:
  "set tgs \<subseteq> set inline_formatting_tags \<Longrightarrow> x \<noteq> [] \<Longrightarrow>
   inline_children t excl [nest tgs (TextNode x)] = [Text x (rev (List.map_filter getMarkType tgs))]"
proof (induction tgs arbitrary: excl)
  case Nil
  then show ?case by (simp add: createTextNode_def)
next
  case (Cons tg tgs)
  then have tg: "tg \<in> set inline_formatting_tags" and rest: "set tgs \<subseteq> set inline_formatting_tags"
    by auto
  obtain m where m: "getMarkType tg = Some m"
    using formatting_tag_facts(4) [OF tg] by blast
  have inner: "inline_children t False [nest tgs (TextNode x)]
      = [Text x (rev (List.map_filter getMarkType tgs))]"
    using Cons.IH [OF rest Cons.prems(2)] .
  show ?case
    using tg formatting_tag_facts(1-3) [OF tg] m inner
    by simp
qed

text \<open>
  C7 (marks), amended. The marks of a text-run are an array in nesting order, innermost
  first: a text inside nested formatting elements becomes exactly one text-run, which
  carries one mark for each enclosing formatting element, so a mark type occurs as often
  as elements that map to it enclose the text. \<open><strong><em>x</em></strong>\<close> gives one
  text-run with italic and bold.
\<close>

theorem nested_formatting_marks:
  "set tgs \<subseteq> set inline_formatting_tags \<Longrightarrow> x \<noteq> [] \<Longrightarrow>
   processInlineContent t (Element tg as [nest tgs (TextNode x)]) excl
     = [Text x (rev (List.map_filter getMarkType tgs))]"
  using nest_marks [of tgs x t excl] by simp

theorem nested_formatting_marks_witness:
  "set [''strong'', ''em''] \<subseteq> set inline_formatting_tags \<and> ''x'' \<noteq> []
   \<and> processInlineContent (new_transformer Map.empty Map.empty :: string transformer)
        (Element ''p'' [] [Element ''strong'' [] [Element ''em'' [] [TextNode ''x'']]]) False
       = [Text ''x'' [Italic, Bold]]"
proof -
  have tags: "set [''strong'', ''em''] \<subseteq> set inline_formatting_tags"
    by (simp add: inline_formatting_tags_def)
  have x: "''x'' \<noteq> []"
    by simp
  show ?thesis
    using tags
      nested_formatting_marks [OF tags x, of "new_transformer Map.empty Map.empty" "''p''" "[]" False]
    by (simp add: getMarkType_def)
qed

lemma nest_link:
  "set tgs \<subseteq> set inline_formatting_tags \<Longrightarrow>
   inline_children t excl [nest tgs (Element ''a'' as' ks)] = [createHyperlink t (Element ''a'' as' ks)]"
proof (induction tgs arbitrary: excl)
  case Nil
  have lower_a: "toLowerCase ''a'' = ''a''"
    by (simp add: string_eval)
  show ?case
    by (simp add: lower_a inline_formatting_tags_def del: createHyperlink.simps)
next
  case (Cons tg tgs)
  then have tg: "tg \<in> set inline_formatting_tags" and rest: "set tgs \<subseteq> set inline_formatting_tags"
    by auto
  obtain m where m: "getMarkType tg = Some m"
    using formatting_tag_facts(4) [OF tg] by blast
  have inner: "inline_children t False [nest tgs (Element ''a'' as' ks)]
      = [createHyperlink t (Element ''a'' as' ks)]"
    using Cons.IH [OF rest] .
  show ?case
    using tg formatting_tag_facts(1-3) [OF tg] m inner
    by (simp add: add_mark_createHyperlink del: createHyperlink.simps)
qed

lemma add_mark_case:
  "add_mark m item
     = (case item of Text v ms \<Rightarrow> Text v (ms @ [m]) | Node nt d cs \<Rightarrow> Node nt d cs)"
  by (cases item) simp_all

text \<open>
  C10 (links inside formatting). \<open>wrapWithMark\<close> appends its mark to the marks of every
  text-run of the inline content and returns every other item as it is. So a text next to
  an anchor inside a formatting element gets the mark while the anchor comes out exactly
  as \<open>createHyperlink\<close> builds it from the anchor alone, and so does an anchor any number
  of formatting elements deep; \<open><strong><a href="u">x</a></strong>\<close> is a link whose
  text-run has no mark, and in \<open><strong>y<a href="u">x</a></strong>\<close> the text \<open>y\<close> is
  bold and the text \<open>x\<close> of the link is not.
\<close>

theorem wrapWithMark_leaves_links:
  "wrapWithMark t node (Some m)
     = map (\<lambda>item. case item of Text v ms \<Rightarrow> Text v (ms @ [m]) | Node nt d cs \<Rightarrow> Node nt d cs)
         (processInlineContent t node False)
   \<and> (x \<noteq> [] \<longrightarrow>
        wrapWithMark t (Element tg as [TextNode x, Element ''a'' as' ks]) (Some m)
          = [Text x [m], createHyperlink t (Element ''a'' as' ks)])
   \<and> (set tgs \<subseteq> set inline_formatting_tags \<longrightarrow>
        wrapWithMark t (Element tg as [nest tgs (Element ''a'' as' ks)]) (Some m)
          = [createHyperlink t (Element ''a'' as' ks)])
   \<and> fst (processNodes t [] [Element ''strong'' [] [Element ''a'' [(''href'', ''u'')] [TextNode ''x'']]])
       = [Node HYPERLINK (Uri ''u'') [Text ''x'' []]]
   \<and> fst (processNodes t []
             [Element ''strong'' [] [TextNode ''y'', Element ''a'' [(''href'', ''u'')] [TextNode ''x'']]])
       = [Text ''y'' [Bold], Node HYPERLINK (Uri ''u'') [Text ''x'' []]]"
proof -
  have general: "wrapWithMark t node (Some m)
     = map (\<lambda>item. case item of Text v ms \<Rightarrow> Text v (ms @ [m]) | Node nt d cs \<Rightarrow> Node nt d cs)
         (processInlineContent t node False)"
    by (simp add: add_mark_case cong: map_cong)
  have lower_a: "toLowerCase ''a'' = ''a''"
    by (simp add: string_eval)
  have mixed: "wrapWithMark t (Element tg as [TextNode x, Element ''a'' as' ks]) (Some m)
      = [Text x [m], createHyperlink t (Element ''a'' as' ks)]"
    if "x \<noteq> []"
    using that
    by (simp add: lower_a inline_formatting_tags_def createTextNode_def add_mark_createHyperlink
        del: createHyperlink.simps)
  have link: "wrapWithMark t (Element tg as [nest tgs (Element ''a'' as' ks)]) (Some m)
      = [createHyperlink t (Element ''a'' as' ks)]"
    if "set tgs \<subseteq> set inline_formatting_tags"
    using nest_link [OF that, of t False as' ks]
    by (simp add: add_mark_createHyperlink del: createHyperlink.simps)
  have example:
    "fst (processNodes t [] [Element ''strong'' [] [Element ''a'' [(''href'', ''u'')] [TextNode ''x'']]])
      = [Node HYPERLINK (Uri ''u'') [Text ''x'' []]]"
    by (simp add: string_eval extractWpPostIdFromUrl_def starts_with_def Let_def truthy_num_def
        container_tags_def mark_tags_def inline_formatting_tags_def getMarkType_def)
  have example2:
    "fst (processNodes t []
            [Element ''strong'' [] [TextNode ''y'', Element ''a'' [(''href'', ''u'')] [TextNode ''x'']]])
      = [Text ''y'' [Bold], Node HYPERLINK (Uri ''u'') [Text ''x'' []]]"
    by (simp add: string_eval extractWpPostIdFromUrl_def starts_with_def Let_def truthy_num_def
        container_tags_def mark_tags_def inline_formatting_tags_def getMarkType_def)
  show ?thesis
    using general mixed link example example2 by blast
qed

text \<open>
  C10, for a text next to an anchor, and for an anchor two formatting elements deep:
  \<open><strong>y<a href="u">x</a></strong>\<close> and
  \<open><strong><em><a href="u">x</a></em></strong>\<close>.
\<close>

theorem wrapWithMark_leaves_links_witness:
  "''y'' \<noteq> []
   \<and> wrapWithMark (new_transformer Map.empty Map.empty :: string transformer)
        (Element ''strong'' [] [TextNode ''y'', Element ''a'' [(''href'', ''u'')] [TextNode ''x'']])
        (Some Bold)
       = [Text ''y'' [Bold], Node HYPERLINK (Uri ''u'') [Text ''x'' []]]
   \<and> set [''em''] \<subseteq> set inline_formatting_tags
   \<and> wrapWithMark (new_transformer Map.empty Map.empty :: string transformer)
        (Element ''strong'' [] [Element ''em'' [] [Element ''a'' [(''href'', ''u'')] [TextNode ''x'']]])
        (Some Bold)
       = [Node HYPERLINK (Uri ''u'') [Text ''x'' []]]"
proof -
  have nonempty: "''y'' \<noteq> []"
    by simp
  have tags: "set [''em''] \<subseteq> set inline_formatting_tags"
    by (simp add: inline_formatting_tags_def)
  have link: "createHyperlink (new_transformer Map.empty Map.empty :: string transformer)
      (Element ''a'' [(''href'', ''u'')] [TextNode ''x'']) = Node HYPERLINK (Uri ''u'') [Text ''x'' []]"
    by (simp add: string_eval extractWpPostIdFromUrl_def starts_with_def Let_def truthy_num_def)
  have facts:
    "wrapWithMark (new_transformer Map.empty Map.empty :: string transformer)
        (Element ''strong'' [] [TextNode ''y'', Element ''a'' [(''href'', ''u'')] [TextNode ''x'']])
        (Some Bold)
       = [Text ''y'' [Bold], createHyperlink (new_transformer Map.empty Map.empty)
            (Element ''a'' [(''href'', ''u'')] [TextNode ''x''])]"
    "wrapWithMark (new_transformer Map.empty Map.empty :: string transformer)
        (Element ''strong'' [] [nest [''em''] (Element ''a'' [(''href'', ''u'')] [TextNode ''x''])])
        (Some Bold)
       = [createHyperlink (new_transformer Map.empty Map.empty)
            (Element ''a'' [(''href'', ''u'')] [TextNode ''x''])]"
    using nonempty tags
      wrapWithMark_leaves_links [of "new_transformer Map.empty Map.empty" _ Bold "''y''" "''strong''"
        "[]" "[(''href'', ''u'')]" "[TextNode ''x'']" "[''em'']"]
    by blast+
  have "nest [''em''] (Element ''a'' [(''href'', ''u'')] [TextNode ''x''])
      = Element ''em'' [] [Element ''a'' [(''href'', ''u'')] [TextNode ''x'']]"
    by simp
  then show ?thesis
    using nonempty tags facts link by (simp only: simp_thms)
qed

subsection \<open>Inline nodes at the top level\<close>

text \<open>
  C9 (no wrapping at the top level). A bare text, a \<open><br>\<close> and an anchor at the top
  level of the HTML each come back as a direct child of the document: a text-run, a
  text-run holding a newline, and a hyperlink node; none is wrapped in a block.
\<close>

theorem transform_top_level_inline:
  "transform (parsed_as [TextNode ''hello'']) t (JsString ''hello'')
     = (Node DOCUMENT NoData [Text ''hello'' []], [])
   \<and> transform (parsed_as [Element ''br'' [] []]) t (JsString ''<br>'')
     = (Node DOCUMENT NoData [Text [CHR 0x0A] []], [])
   \<and> transform (parsed_as [Element ''a'' [(''href'', ''u'')] [TextNode ''x'']]) t
        (JsString ''<a href=u>x</a>'')
     = (Node DOCUMENT NoData [Node HYPERLINK (Uri ''u'') [Text ''x'' []]], [])"
  by (simp add: transform_def parsed_as_def string_eval extractWpPostIdFromUrl_def
      starts_with_def Let_def container_tags_def mark_tags_def truthy_num_def)

section \<open>The migration\<close>

subsection \<open>The loop over a family\<close>

lemma migrate_entities_Nil [simp]: "migrate_entities mapKey ident attempt s [] = s"
  by (simp add: migrate_entities_def)

lemma migrate_entities_Cons [simp]:
  "migrate_entities mapKey ident attempt s (e # es)
     = migrate_entities mapKey ident attempt (migrate_entity mapKey ident attempt s e) es"
  by (simp add: migrate_entities_def)

lemma migrate_entities_append:
  "migrate_entities mapKey ident attempt s (xs @ ys)
     = migrate_entities mapKey ident attempt (migrate_entities mapKey ident attempt s xs) ys"
  by (simp add: migrate_entities_def)

lemma migrate_entity_skip:
  "entry_map s (mapKey e) = Some v \<Longrightarrow>
   migrate_entity mapKey ident attempt s e
     = s\<lparr>counts := (counts s)\<lparr>skipped := skipped (counts s) + 1\<rparr>\<rparr>"
  by (simp add: migrate_entity_def)

lemma migrate_entity_keeps:
  "entry_map s k = Some v \<Longrightarrow> entry_map (migrate_entity mapKey ident attempt s e) k = Some v"
  by (auto simp: migrate_entity_def split: option.splits prod.splits sum.splits)

lemma migrate_entities_keeps:
  "entry_map s k = Some v \<Longrightarrow> entry_map (migrate_entities mapKey ident attempt s es) k = Some v"
  by (induction es arbitrary: s) (simp_all add: migrate_entity_keeps)

lemma migrate_entities_all_present:
  "list_all (\<lambda>e. entry_map s (mapKey e) \<noteq> None) es \<Longrightarrow>
   migrate_entities mapKey ident attempt s es
     = s\<lparr>counts := (counts s)\<lparr>skipped := skipped (counts s) + length es\<rparr>\<rparr>"
proof (induction es arbitrary: s)
  case Nil
  then show ?case by simp
next
  case (Cons e es)
  then obtain v where v: "entry_map s (mapKey e) = Some v"
    by auto
  let ?s = "s\<lparr>counts := (counts s)\<lparr>skipped := skipped (counts s) + 1\<rparr>\<rparr>"
  have "list_all (\<lambda>e. entry_map ?s (mapKey e) \<noteq> None) es"
    using Cons.prems by simp
  from Cons.IH [OF this] show ?case
    using v by (simp add: migrate_entity_skip [of s mapKey e v])
qed

text \<open>Saving does not touch what the loop reads.\<close>

lemma migrate_entity_saved:
  "migrate_entity mapKey ident attempt (s\<lparr>saved := m\<rparr>) e
     = (migrate_entity mapKey ident attempt s e)\<lparr>saved := m\<rparr>"
  by (simp add: migrate_entity_def split: option.splits prod.splits sum.splits)

lemma migrate_entities_saved:
  "migrate_entities mapKey ident attempt (s\<lparr>saved := m\<rparr>) es
     = (migrate_entities mapKey ident attempt s es)\<lparr>saved := m\<rparr>"
  by (induction es arbitrary: s) (simp_all add: migrate_entity_saved)

lemma saveProgress_after_saved:
  "saveProgress (migrate_entities mapKey ident attempt (saveProgress s) es)
     = saveProgress (migrate_entities mapKey ident attempt s es)"
  by (simp add: saveProgress_def migrate_entities_saved)

lemma post_batches_unbatched:
  "post_batches cfg s i ps =
     (if i < length ps
      then saveProgress (migrate_entities post_key post_id (attempt_post cfg) s (drop i ps))
      else s)"
proof (induction cfg s i ps rule: post_batches.induct)
  case (1 cfg s i ps)
  show ?case
  proof (cases "i < length ps")
    case False
    then show ?thesis
      by (simp add: post_batches.simps [of cfg s i ps])
  next
    case True
    let ?B = "BATCH_SIZE cfg"
    let ?s' = "migrate_entities post_key post_id (attempt_post cfg) s (take ?B (drop i ps))"
    have unfold: "post_batches cfg s i ps = post_batches cfg (saveProgress ?s') (i + ?B) ps"
      using True by (simp add: post_batches.simps [of cfg s i ps] Let_def)
    have IH: "post_batches cfg (saveProgress ?s') (i + ?B) ps =
        (if i + ?B < length ps
         then saveProgress (migrate_entities post_key post_id (attempt_post cfg)
                 (saveProgress ?s') (drop (i + ?B) ps))
         else saveProgress ?s')"
      using "1.IH" [OF True refl refl] .
    have split: "drop i ps = take ?B (drop i ps) @ drop (i + ?B) ps"
      by (metis add.commute append_take_drop_id drop_drop)
    show ?thesis
    proof (cases "i + ?B < length ps")
      case True
      have "migrate_entities post_key post_id (attempt_post cfg) s (drop i ps)
          = migrate_entities post_key post_id (attempt_post cfg) ?s' (drop (i + ?B) ps)"
        using split migrate_entities_append by metis
      then show ?thesis
        using unfold IH True \<open>i < length ps\<close> by (simp add: saveProgress_after_saved)
    next
      case False
      then have "take ?B (drop i ps) = drop i ps"
        by simp
      then show ?thesis
        using unfold IH False \<open>i < length ps\<close> by simp
    qed
  qed
qed

lemma migrate_posts_unbatched:
  "migrate_posts cfg s ps =
     (if ps = [] then start_family 0 s
      else saveProgress
             (migrate_entities post_key post_id (attempt_post cfg) (start_family (length ps) s) ps))"
  by (simp add: migrate_posts_def post_batches_unbatched)

lemma list_all_sort_key: "list_all P (sort_key f xs) = list_all P xs"
  by (simp add: list_all_iff)

lemma family_all_present:
  assumes "list_all (\<lambda>e. entry_map s (mapKey e) \<noteq> None) es" "saved s = entry_map s"
  shows "saveProgress (migrate_entities mapKey ident attempt (start_family n s) es)
           = s\<lparr>counts := \<lparr>total = n, migrated = 0, skipped = length es, failed = 0\<rparr>\<rparr>"
proof -
  have "list_all (\<lambda>e. entry_map (start_family n s) (mapKey e) \<noteq> None) es"
    using assms(1) by (simp add: start_family_def)
  from migrate_entities_all_present [OF this] show ?thesis
    using assms(2) by (simp add: saveProgress_def start_family_def)
qed

lemma migrateContent_all_present:
  assumes "fully_populated wpData loaded"
  shows "migrateContent cfg wpData loaded =
     \<lparr>authors_stats = all_skipped (length (users wpData)),
      categories_stats = all_skipped (length (categories wpData)),
      tags_stats = all_skipped (length (tags wpData)),
      posts_stats = all_skipped (length (posts wpData)),
      pages_stats = all_skipped (length (pages wpData)),
      final = \<lparr>entry_map = loaded, counts = all_skipped (length (pages wpData)),
                saved = loaded, writes = [], failures = []\<rparr>\<rparr>"
proof -
  let ?s0 = "\<lparr>entry_map = loaded, counts = \<lparr>total = 0, migrated = 0, skipped = 0, failed = 0\<rparr>,
              saved = loaded, writes = [], failures = []\<rparr>"
  let ?st = "\<lambda>n. \<lparr>entry_map = loaded, counts = all_skipped n,
              saved = loaded, writes = [], failures = []\<rparr>"
  have s1: "migrate_authors cfg ?s0 (users wpData) = ?st (length (users wpData))"
    using assms family_all_present [of ?s0 author_key "users wpData"]
    by (simp add: migrate_authors_def fully_populated_def all_skipped_def)
  have s2: "migrate_categories cfg (?st n) (categories wpData) = ?st (length (categories wpData))" for n
    using assms family_all_present [of "?st n" cat_key "sort_key cat_parent (categories wpData)"]
    by (simp add: migrate_categories_def fully_populated_def all_skipped_def list_all_sort_key)
  have s3: "migrate_tags cfg (?st n) (tags wpData) = ?st (length (tags wpData))" for n
    using assms family_all_present [of "?st n" tag_key "tags wpData"]
    by (simp add: migrate_tags_def fully_populated_def all_skipped_def)
  have s4: "migrate_posts cfg (?st n) (posts wpData) = ?st (length (posts wpData))" for n
    using assms family_all_present [of "?st n" post_key "posts wpData"]
    by (simp add: migrate_posts_unbatched fully_populated_def all_skipped_def start_family_def)
  have s5: "migrate_pages cfg (?st n) (pages wpData) = ?st (length (pages wpData))" for n
    using assms family_all_present [of "?st n" page_key "sort_key page_parent (pages wpData)"]
    by (simp add: migrate_pages_def fully_populated_def all_skipped_def list_all_sort_key)
  show ?thesis
    by (simp add: migrateContent_def Let_def s1 s2 s3 s4 s5)
qed

lemma decimal_small:
  "decimal (Suc 0) = ''1''" "decimal 1 = ''1''" "decimal 2 = ''2''" "decimal 3 = ''3''"
  by code_simp+

lemmas example_eval =
  example_dest_def example_config_def example_user_def example_post_def fresh_progress_def
  example_data_def example_map_def author_key_def post_key_def decimal_small

lemma entry_map_saveProgress [simp]: "entry_map (saveProgress s) = entry_map s"
  by (simp add: saveProgress_def)

lemma counts_saveProgress [simp]: "counts (saveProgress s) = counts s"
  by (simp add: saveProgress_def)

lemma entry_map_start_family [simp]: "entry_map (start_family n s) = entry_map s"
  by (simp add: start_family_def)

lemma migrateContent_keeps:
  assumes "loaded k = Some v"
  shows "entry_map (final (migrateContent cfg wpData loaded)) k = Some v"
proof -
  have posts: "entry_map s k = Some v \<Longrightarrow> entry_map (migrate_posts cfg s ps) k = Some v" for s ps
    by (simp add: migrate_posts_unbatched migrate_entities_keeps)
  show ?thesis
    using assms
    by (simp add: migrateContent_def Let_def migrate_authors_def migrate_categories_def
        migrate_tags_def migrate_pages_def migrate_entities_keeps posts)
qed

subsection \<open>Entities already mapped\<close>

text \<open>
  C3 (idempotence). An entity whose key is in the entry map is skipped: the state after
  the step is the state before it with \<open>skipped\<close> one higher, so there is no call to
  the destination and no change of the map. A run over an export whose every entity has
  its key in the loaded map leaves the map as loaded, writes nothing, and reports for
  each family \<open>migrated = 0\<close>, \<open>failed = 0\<close> and \<open>skipped = total\<close>. A mapping that is
  in the map stays as it is through every loop and through the whole run.
\<close>

theorem mapped_entities_skipped:
  "(entry_map s (mapKey e) = Some v \<longrightarrow>
      migrate_entity mapKey ident attempt s e
        = s\<lparr>counts := (counts s)\<lparr>skipped := skipped (counts s) + 1\<rparr>\<rparr>)
   \<and> (fully_populated wpData loaded \<longrightarrow>
        migrateContent cfg wpData loaded =
          \<lparr>authors_stats = all_skipped (length (users wpData)),
           categories_stats = all_skipped (length (categories wpData)),
           tags_stats = all_skipped (length (tags wpData)),
           posts_stats = all_skipped (length (posts wpData)),
           pages_stats = all_skipped (length (pages wpData)),
           final = \<lparr>entry_map = loaded, counts = all_skipped (length (pages wpData)),
                     saved = loaded, writes = [], failures = []\<rparr>\<rparr>)
   \<and> (entry_map s k = Some w \<longrightarrow>
        entry_map (migrate_entities mapKey ident attempt s es) k = Some w)
   \<and> (loaded k = Some w \<longrightarrow>
        entry_map (final (migrateContent cfg wpData loaded)) k = Some w)"
  using migrate_entity_skip [of s mapKey e v ident attempt]
    migrateContent_all_present [of wpData loaded cfg]
    migrate_entities_keeps [of s k w mapKey ident attempt es]
    migrateContent_keeps [of loaded k w cfg wpData]
  by blast

text \<open>
  C3, at a concrete run: one author and two posts, all three mapped before the run.
\<close>

theorem mapped_entities_skipped_witness:
  "entry_map (fresh_progress example_map) (author_key (example_user 1)) = Some ''author-1''
   \<and> migrate_entity author_key user_id (attempt_author example_config)
        (fresh_progress example_map) (example_user 1)
       = (fresh_progress example_map)
           \<lparr>counts := (counts (fresh_progress example_map))
              \<lparr>skipped := skipped (counts (fresh_progress example_map)) + 1\<rparr>\<rparr>
   \<and> fully_populated example_data example_map
   \<and> migrateContent example_config example_data example_map =
        \<lparr>authors_stats = all_skipped (length (users example_data)),
         categories_stats = all_skipped (length (categories example_data)),
         tags_stats = all_skipped (length (tags example_data)),
         posts_stats = all_skipped (length (posts example_data)),
         pages_stats = all_skipped (length (pages example_data)),
         final = \<lparr>entry_map = example_map, counts = all_skipped (length (pages example_data)),
                   saved = example_map, writes = [], failures = []\<rparr>\<rparr>
   \<and> entry_map (migrate_entities author_key user_id (attempt_author example_config)
                  (fresh_progress example_map) [example_user 1, example_user 2]) ''author_1''
       = Some ''author-1''
   \<and> example_map ''post_3'' = Some ''blogPost-3''
   \<and> entry_map (final (migrateContent example_config example_data example_map)) ''post_3''
       = Some ''blogPost-3''"
proof -
  have present: "entry_map (fresh_progress example_map) (author_key (example_user 1)) = Some ''author-1''"
    by (simp add: example_eval)
  have full: "fully_populated example_data example_map"
    by (simp add: fully_populated_def example_eval)
  have kept: "entry_map (fresh_progress example_map) ''author_1'' = Some ''author-1''"
    by (simp add: example_eval)
  have loaded: "example_map ''post_3'' = Some ''blogPost-3''"
    by (simp add: example_eval)
  show ?thesis
    using present full kept loaded
      mapped_entities_skipped [of "fresh_progress example_map" author_key "example_user 1" "''author-1''" user_id
        "attempt_author example_config" example_data example_map example_config
        "''author_1''" "''author-1''" "[example_user 1, example_user 2]"]
      mapped_entities_skipped [of "fresh_progress example_map" author_key "example_user 1" "''author-1''" user_id
        "attempt_author example_config" example_data example_map example_config
        "''post_3''" "''blogPost-3''" "[]"]
    by blast
qed

subsection \<open>Entities that fail\<close>









end
